theory Spec2Isabelle
  imports Complex_Main "HOL-Library.Sublist"
begin

section \<open>Python values, exceptions and the outside world\<close>

text \<open>
  Log payloads are untyped Python values. The model covers the values the repository
  itself logs (\<open>None\<close>, booleans, integers, strings); \<open>py_str\<close> is Python's \<open>str()\<close>
  on them. Keyword arguments are a dictionary with string keys, kept as an association
  list (looked up with \<open>map_of\<close>).
\<close>

datatype pyval = PNone | PBool bool | PInt int | PStr string

datatype py_exc =
  TypeError | ValueError | AttributeError | FileNotFoundError | IsADirectoryError

type_synonym kwargs = "(string \<times> pyval) list"

definition newline :: char where
  "newline = CHR 0x0A"

definition digit_char :: "nat \<Rightarrow> char" where
  "digit_char d = ''0123456789'' ! d"

function str_nat :: "nat \<Rightarrow> string" where
  "str_nat n = (if n < 10 then [digit_char n] else str_nat (n div 10) @ [digit_char (n mod 10)])"
  by pat_completeness auto
termination
  by (relation "measure id") auto

definition str_int :: "int \<Rightarrow> string" where
  "str_int i = (if i < 0 then CHR ''-'' # str_nat (nat (- i)) else str_nat (nat i))"

fun py_str :: "pyval \<Rightarrow> string" where
  "py_str PNone = ''None''"
| "py_str (PBool b) = (if b then ''True'' else ''False'')"
| "py_str (PInt i) = str_int i"
| "py_str (PStr s) = s"

fun py_join :: "string \<Rightarrow> string list \<Rightarrow> string" where
  "py_join sep [] = []"
| "py_join sep [x] = x"
| "py_join sep (x # y # ys) = x @ sep @ py_join sep (y # ys)"

text \<open>
  The world the sinks write to: the terminal (\<open>sys.stdout\<close>, which raises
  \<open>ValueError\<close> once it is closed), the diagnostic stream (\<open>sys.stderr\<close>, kept as the
  list of exceptions reported on it, one line each) and a flat file system. A path
  names nothing, a regular text file or a directory; opening a directory for writing
  raises \<open>IsADirectoryError\<close>.
\<close>

datatype fs_entry = Missing | Regular string | Directory

record world =
  stdout :: string
  stdout_closed :: bool
  stderr :: "py_exc list"
  fs :: "string \<Rightarrow> fs_entry"

datatype stream = Stdout | FileObj string

text \<open>\<open>open(path, 'w')\<close>: creates or truncates.\<close>

definition open_write :: "world \<Rightarrow> string \<Rightarrow> py_exc + world" where
  "open_write w path =
     (case fs w path of
        Directory \<Rightarrow> Inl IsADirectoryError
      | _ \<Rightarrow> Inr (w\<lparr>fs := (fs w)(path := Regular [])\<rparr>))"

text \<open>\<open>open(path, 'a')\<close>: creates an empty file when there is none, keeps the content otherwise.\<close>

definition open_append :: "world \<Rightarrow> string \<Rightarrow> py_exc + world" where
  "open_append w path =
     (case fs w path of
        Directory \<Rightarrow> Inl IsADirectoryError
      | Missing \<Rightarrow> Inr (w\<lparr>fs := (fs w)(path := Regular [])\<rparr>)
      | Regular c \<Rightarrow> Inr w)"

text \<open>\<open>open(path, 'r')\<close> followed by reading the whole text.\<close>

definition open_read :: "world \<Rightarrow> string \<Rightarrow> py_exc + string" where
  "open_read w path =
     (case fs w path of
        Missing \<Rightarrow> Inl FileNotFoundError
      | Directory \<Rightarrow> Inl IsADirectoryError
      | Regular c \<Rightarrow> Inr c)"

text \<open>Writing text to a stream: the terminal, or a file object open on a path.\<close>

fun stream_write :: "world \<Rightarrow> stream \<Rightarrow> string \<Rightarrow> world \<times> (py_exc + unit)" where
  "stream_write w Stdout s =
     (if stdout_closed w then (w, Inl ValueError)
      else (w\<lparr>stdout := stdout w @ s\<rparr>, Inr ()))"
| "stream_write w (FileObj path) s =
     (case fs w path of
        Regular c \<Rightarrow> (w\<lparr>fs := (fs w)(path := Regular (c @ s))\<rparr>, Inr ())
      | _ \<Rightarrow> (w, Inl ValueError))"

subsection \<open>The built-in \<open>print\<close>\<close>

text \<open>
  \<open>print(*args, sep=' ', end='\n', file=None, flush=False)\<close>. Any other keyword is a
  \<open>TypeError\<close>; \<open>sep\<close> and \<open>end\<close> must be \<open>None\<close> or a string (checked before anything
  is written); a \<open>file\<close> of \<open>None\<close> means \<open>sys.stdout\<close>, and a \<open>file\<close> that is one of
  the plain values above has no \<open>write\<close> method (\<open>AttributeError\<close> at the first write).
  The parameter \<open>out\<close> is the stream the call writes to when the keyword dictionary
  carries no \<open>file\<close>: \<open>sys.stdout\<close>, or the file object the call site passes as
  \<open>file=f\<close>. Flushing has no effect of its own here: written text is in the world at once.
\<close>

definition print_keywords :: "string list" where
  "print_keywords = [''sep'', ''end'', ''file'', ''flush'']"

fun str_or_none :: "pyval option \<Rightarrow> string \<Rightarrow> py_exc + string" where
  "str_or_none None d = Inr d"
| "str_or_none (Some PNone) d = Inr d"
| "str_or_none (Some (PStr s)) d = Inr s"
| "str_or_none (Some (PBool b)) d = Inl TypeError"
| "str_or_none (Some (PInt i)) d = Inl TypeError"

definition builtin_print ::
  "world \<Rightarrow> stream \<Rightarrow> pyval list \<Rightarrow> kwargs \<Rightarrow> world \<times> (py_exc + unit)" where
  "builtin_print w out args kw =
     (if \<not> list_all (\<lambda>k. k \<in> set print_keywords) (map fst kw) then (w, Inl TypeError)
      else case str_or_none (map_of kw ''sep'') '' '' of
        Inl e \<Rightarrow> (w, Inl e)
      | Inr sep \<Rightarrow>
         (case str_or_none (map_of kw ''end'') [newline] of
            Inl e \<Rightarrow> (w, Inl e)
          | Inr en \<Rightarrow>
             (case map_of kw ''file'' of
                None \<Rightarrow> stream_write w out (py_join sep (map py_str args) @ en)
              | Some PNone \<Rightarrow> stream_write w Stdout (py_join sep (map py_str args) @ en)
              | Some v \<Rightarrow> (w, Inl AttributeError))))"

section \<open>The sinks of \<open>LogStrategy.py\<close>\<close>

text \<open>
  A sink object after construction: the terminal logger has no field, the file logger
  holds its path, the dual logger holds a terminal logger and a file logger on its path.
\<close>

datatype strategy = TerminalLogger | FileLogger string | DualLogger string

text \<open>\<open>TerminalLogger.log\<close>: \<open>print(*args, **kwargs, flush=True)\<close>. A key \<open>flush\<close> in
  \<open>kwargs\<close> meets the explicit \<open>flush=True\<close>: the call itself raises \<open>TypeError\<close>, before
  \<open>print\<close> runs.\<close>

definition TerminalLogger_log ::
  "world \<Rightarrow> pyval list \<Rightarrow> kwargs \<Rightarrow> world \<times> (py_exc + unit)" where
  "TerminalLogger_log w args kw =
     (if ''flush'' \<in> set (map fst kw) then (w, Inl TypeError)
      else builtin_print w Stdout args kw)"

text \<open>The first line \<open>FileLogger.__init__\<close> writes when \<open>reset\<close> is set; \<open>now\<close> is the
  text of \<open>datetime.now()\<close>.\<close>

definition banner :: "string \<Rightarrow> string" where
  "banner now = ''--- Log Iniciado em '' @ now @ '' ---'' @ [newline]"

definition FileLogger_init ::
  "string \<Rightarrow> world \<Rightarrow> string \<Rightarrow> bool \<Rightarrow> world \<times> (py_exc + strategy)" where
  "FileLogger_init now w filepath reset =
     (if reset then
        (case open_write w filepath of
           Inl e \<Rightarrow> (w, Inl e)
         | Inr w1 \<Rightarrow>
            (case stream_write w1 (FileObj filepath) (banner now) of
               (w2, Inl e) \<Rightarrow> (w2, Inl e)
             | (w2, Inr u) \<Rightarrow> (w2, Inr (FileLogger filepath))))
      else (w, Inr (FileLogger filepath)))"

text \<open>\<open>FileLogger.log\<close>: the file is opened for appending, then
  \<open>print(*args, **kwargs, file=f)\<close>; a key \<open>file\<close> in \<open>kwargs\<close> is a duplicate keyword.\<close>

definition FileLogger_log ::
  "string \<Rightarrow> world \<Rightarrow> pyval list \<Rightarrow> kwargs \<Rightarrow> world \<times> (py_exc + unit)" where
  "FileLogger_log filepath w args kw =
     (case open_append w filepath of
        Inl e \<Rightarrow> (w, Inl e)
      | Inr w1 \<Rightarrow>
         (if ''file'' \<in> set (map fst kw) then (w1, Inl TypeError)
          else builtin_print w1 (FileObj filepath) args kw))"

definition DualLogger_init ::
  "string \<Rightarrow> world \<Rightarrow> string \<Rightarrow> bool \<Rightarrow> world \<times> (py_exc + strategy)" where
  "DualLogger_init now w filepath reset =
     (case FileLogger_init now w filepath reset of
        (w1, Inl e) \<Rightarrow> (w1, Inl e)
      | (w1, Inr f) \<Rightarrow> (w1, Inr (DualLogger filepath)))"

text \<open>\<open>DualLogger.log\<close>: the terminal logger's \<open>log\<close>, then the file logger's; an
  exception of the first leaves the method at once.\<close>

definition DualLogger_log ::
  "string \<Rightarrow> world \<Rightarrow> pyval list \<Rightarrow> kwargs \<Rightarrow> world \<times> (py_exc + unit)" where
  "DualLogger_log filepath w args kw =
     (case TerminalLogger_log w args kw of
        (w1, Inl e) \<Rightarrow> (w1, Inl e)
      | (w1, Inr u) \<Rightarrow> FileLogger_log filepath w1 args kw)"

fun strategy_log ::
  "strategy \<Rightarrow> world \<Rightarrow> pyval list \<Rightarrow> kwargs \<Rightarrow> world \<times> (py_exc + unit)" where
  "strategy_log TerminalLogger w args kw = TerminalLogger_log w args kw"
| "strategy_log (FileLogger path) w args kw = FileLogger_log path w args kw"
| "strategy_log (DualLogger path) w args kw = DualLogger_log path w args kw"

text \<open>A world to run examples in: nothing printed yet, an open terminal, no file, and
  a directory at \<open>/tmp\<close>.\<close>

definition world0 :: world where
  "world0 = \<lparr>stdout = [], stdout_closed = False, stderr = [],
             fs = (\<lambda>p. if p = ''/tmp'' then Directory else Missing)\<rparr>"

text \<open>The same world with a log file left by an earlier run.\<close>

definition world1 :: world where
  "world1 = world0\<lparr>fs := (fs world0)(''run.log'' := Regular ''old'')\<rparr>"

section \<open>The manager, its handles and its listener\<close>

text \<open>
  The queue of the manager holds what was put on it, oldest first. A handle puts the
  pair \<open>(args, kwargs)\<close> of its call; \<open>Junk\<close> stands for any other object put on the
  queue directly (an object \<open>args, kwargs = payload\<close> cannot unpack). Each item carries
  the number of the handle that put it: the number is not part of the payload, it only
  tells the handles apart in the statements below.

  The listener is a process of its own: \<open>lpc\<close> is its control point in
  \<open>_listener_worker\<close>, and \<open>trace\<close> lists what it has done, oldest first: the calls of
  \<open>strategy.log\<close>, the items it could not unpack, and its sleeps. The owner of the
  manager is in one of three phases of \<open>stop()\<close>: not called, blocked in \<open>join()\<close>,
  returned.
\<close>

datatype qitem = Payload "pyval list" kwargs | Junk

datatype lpc = OuterTest | OuterTestEmpty | InnerTest | Body | Sleeping | Exited

datatype stop_phase = NotCalled | Joining | Returned

datatype laction = Dispatch nat "pyval list" kwargs | Unpack_failed nat | Slept

record manager =
  strategy :: strategy
  queue :: "(nat \<times> qitem) list"
  stop_event :: bool
  listener_process :: "lpc option"
  stopping :: stop_phase
  env :: world
  trace :: "laction list"

text \<open>\<open>ParallelLogManager.__init__\<close>: an empty queue, a cleared event, no listener.\<close>

definition ParallelLogManager_init :: "strategy \<Rightarrow> world \<Rightarrow> manager" where
  "ParallelLogManager_init strat w =
     \<lparr>strategy = strat, queue = [], stop_event = False, listener_process = None,
      stopping = NotCalled, env = w, trace = []\<rparr>"

text \<open>\<open>ParallelLogManager.start\<close>: the listener process begins at the test of the outer
  loop.\<close>

definition ParallelLogManager_start :: "manager \<Rightarrow> py_exc + manager" where
  "ParallelLogManager_start m = Inr (m\<lparr>listener_process := Some OuterTest\<rparr>)"

text \<open>\<open>ParallelLogManager.stop\<close>, up to the point where it may block: the event is
  set; with no listener process the method returns at once, otherwise it waits in
  \<open>join()\<close>. No branch raises.\<close>

definition ParallelLogManager_stop :: "manager \<Rightarrow> py_exc + manager" where
  "ParallelLogManager_stop m =
     Inr (m\<lparr>stop_event := True,
            stopping := (if listener_process m = None then Returned else Joining)\<rparr>)"

text \<open>\<open>join()\<close> returns once the listener process has exited.\<close>

definition join_returns :: "manager \<Rightarrow> manager option" where
  "join_returns m =
     (if stopping m = Joining \<and> listener_process m = Some Exited
      then Some (m\<lparr>stopping := Returned\<rparr>) else None)"

text \<open>\<open>WorkerLogger.log\<close> of the handle numbered \<open>h\<close>: \<open>self.queue.put((args, kwargs))\<close>.\<close>

definition WorkerLogger_log :: "nat \<Rightarrow> manager \<Rightarrow> pyval list \<Rightarrow> kwargs \<Rightarrow> manager" where
  "WorkerLogger_log h m args kw = m\<lparr>queue := queue m @ [(h, Payload args kw)]\<rparr>"

text \<open>The \<open>except\<close> branch of the listener: one line on \<open>sys.stderr\<close>.\<close>

definition report :: "world \<Rightarrow> py_exc \<Rightarrow> world" where
  "report w e = w\<lparr>stderr := stderr w @ [e]\<rparr>"

text \<open>The \<open>try\<close> statement of the listener on the item \<open>queue.get()\<close> returned.\<close>

fun try_body :: "manager \<Rightarrow> nat \<times> qitem \<Rightarrow> manager" where
  "try_body m (h, Junk) =
     m\<lparr>env := report (env m) TypeError, trace := trace m @ [Unpack_failed h]\<rparr>"
| "try_body m (h, Payload args kw) =
     (case strategy_log (strategy m) (env m) args kw of
        (w1, Inl e) \<Rightarrow> m\<lparr>env := report w1 e, trace := trace m @ [Dispatch h args kw]\<rparr>
      | (w1, Inr u) \<Rightarrow> m\<lparr>env := w1, trace := trace m @ [Dispatch h args kw]\<rparr>)"

text \<open>
  One step of \<open>_listener_worker\<close>. The outer test reads the event and, only when it is
  set, the queue (Python's \<open>or\<close>); the inner test reads the queue; the body takes the
  oldest item (\<open>queue.get()\<close> would block on an empty queue: no step) and runs the
  \<open>try\<close> statement; the sleep follows the inner loop, whatever the event says.
\<close>

definition listener_worker :: "manager \<Rightarrow> manager option" where
  "listener_worker m =
     (case listener_process m of
        None \<Rightarrow> None
      | Some OuterTest \<Rightarrow>
          Some (m\<lparr>listener_process := Some (if \<not> stop_event m then InnerTest else OuterTestEmpty)\<rparr>)
      | Some OuterTestEmpty \<Rightarrow>
          Some (m\<lparr>listener_process := Some (if queue m \<noteq> [] then InnerTest else Exited)\<rparr>)
      | Some InnerTest \<Rightarrow>
          Some (m\<lparr>listener_process := Some (if queue m \<noteq> [] then Body else Sleeping)\<rparr>)
      | Some Body \<Rightarrow>
          (case queue m of
             [] \<Rightarrow> None
           | x # rest \<Rightarrow> Some ((try_body (m\<lparr>queue := rest\<rparr>) x)\<lparr>listener_process := Some InnerTest\<rparr>))
      | Some Sleeping \<Rightarrow> Some (m\<lparr>listener_process := Some OuterTest, trace := trace m @ [Slept]\<rparr>)
      | Some Exited \<Rightarrow> None)"

text \<open>
  The processes run interleaved. An event is one atomic step of one of them: a handle
  logs, some process puts an object that is no payload, the owner calls \<open>start()\<close> or
  \<open>stop()\<close>, the owner's \<open>join()\<close> returns, the listener takes a step. \<open>step\<close> is
  \<open>None\<close> when the event cannot happen in the state; the owner starts one listener
  (a second \<open>start()\<close> is not part of the model) and calls \<open>stop()\<close> once. A schedule is
  a list of events; \<open>run\<close> is \<open>None\<close> when the schedule is not an execution.
\<close>

datatype event = Log nat "pyval list" kwargs | PutJunk nat | Start | Stop | Join | Listener

fun from_sum :: "'e + 'a \<Rightarrow> 'a option" where
  "from_sum (Inl e) = None"
| "from_sum (Inr x) = Some x"

fun step :: "event \<Rightarrow> manager \<Rightarrow> manager option" where
  "step (Log h args kw) m = Some (WorkerLogger_log h m args kw)"
| "step (PutJunk h) m = Some (m\<lparr>queue := queue m @ [(h, Junk)]\<rparr>)"
| "step Start m =
     (if listener_process m = None then from_sum (ParallelLogManager_start m) else None)"
| "step Stop m =
     (if stopping m = NotCalled then from_sum (ParallelLogManager_stop m) else None)"
| "step Join m = join_returns m"
| "step Listener m = listener_worker m"

fun run :: "event list \<Rightarrow> manager \<Rightarrow> manager option" where
  "run [] m = Some m"
| "run (e # es) m = (case step e m of None \<Rightarrow> None | Some m1 \<Rightarrow> run es m1)"

text \<open>What a schedule puts on the queue, what the listener has taken from it, what
  the handles logged and what the sink was called with.\<close>

fun put_of :: "event \<Rightarrow> (nat \<times> qitem) list" where
  "put_of (Log h args kw) = [(h, Payload args kw)]"
| "put_of (PutJunk h) = [(h, Junk)]"
| "put_of e = []"

definition puts :: "event list \<Rightarrow> (nat \<times> qitem) list" where
  "puts es = concat (map put_of es)"

fun taken_of :: "laction \<Rightarrow> (nat \<times> qitem) list" where
  "taken_of (Dispatch h args kw) = [(h, Payload args kw)]"
| "taken_of (Unpack_failed h) = [(h, Junk)]"
| "taken_of Slept = []"

definition taken :: "laction list \<Rightarrow> (nat \<times> qitem) list" where
  "taken tr = concat (map taken_of tr)"

fun payload_of :: "nat \<times> qitem \<Rightarrow> (nat \<times> pyval list \<times> kwargs) list" where
  "payload_of (h, Payload args kw) = [(h, args, kw)]"
| "payload_of (h, Junk) = []"

definition logged :: "event list \<Rightarrow> (nat \<times> pyval list \<times> kwargs) list" where
  "logged es = concat (map payload_of (puts es))"

definition dispatched :: "manager \<Rightarrow> (nat \<times> pyval list \<times> kwargs) list" where
  "dispatched m = concat (map payload_of (taken (trace m)))"

text \<open>The messages of one handle, in a list of tagged messages.\<close>

definition of_handle :: "nat \<Rightarrow> (nat \<times> 'a) list \<Rightarrow> 'a list" where
  "of_handle h xs = map snd (filter (\<lambda>x. fst x = h) xs)"

text \<open>What an observer sees of a manager: the event, the queue, the listener's control
  point, the owner's phase and the listener's trace.\<close>

definition view ::
  "manager \<Rightarrow> bool \<times> (nat \<times> qitem) list \<times> lpc option \<times> stop_phase \<times> laction list" where
  "view m = (stop_event m, queue m, listener_process m, stopping m, trace m)"

text \<open>A manager around a file logger, and schedules used as examples below.\<close>

definition manager0 :: manager where
  "manager0 = ParallelLogManager_init (FileLogger ''run.log'') world0"

definition pre_stop :: "event list" where
  "pre_stop = [Log 1 [PStr ''A'', PInt 1] [], Start, Log 2 [PStr ''B''] [(''file'', PNone)],
     Listener, Listener]"

definition post_stop :: "event list" where
  "post_stop = [Log 1 [PStr ''C''] [], Listener, Listener, Listener, Listener, Listener,
     Listener, Listener, Listener, Listener, Join, Log 2 [PStr ''late''] []]"


definition stop_while_queued :: "event list" where
  "stop_while_queued = [Start, Log 1 [PStr ''A''] [], Stop,
     Listener, Listener, Listener, Listener]"

text \<open>
  Invariants of every execution. \<open>listener_inv\<close>: the listener is in the body only with
  an item to take; the event is set exactly when \<open>stop()\<close> has been called; the listener
  reads the queue in the outer test, or has exited, only with the event set; the owner
  waits in \<open>join()\<close> only for a listener that exists; and at the outer test, as after the
  exit, the last thing the listener did (if anything) was to sleep. \<open>drain_inv n\<close>, from
  the call of \<open>stop()\<close> on a started manager: the first \<open>n\<close> items put on the queue are
  taken or still queued, all taken once the listener has exited, and \<open>stop()\<close> has
  returned only after that exit.
\<close>

definition after_sleep :: "manager \<Rightarrow> bool" where
  "after_sleep m \<longleftrightarrow> trace m = [] \<or> last (trace m) = Slept"

definition listener_inv :: "manager \<Rightarrow> bool" where
  "listener_inv m \<longleftrightarrow>
     (listener_process m = Some Body \<longrightarrow> queue m \<noteq> []) \<and>
     (stop_event m \<longleftrightarrow> stopping m \<noteq> NotCalled) \<and>
     (listener_process m = Some OuterTestEmpty \<or> listener_process m = Some Exited \<longrightarrow> stop_event m) \<and>
     (stopping m = Joining \<longrightarrow> listener_process m \<noteq> None) \<and>
     (listener_process m = Some OuterTest \<or> listener_process m = Some OuterTestEmpty \<or>
      listener_process m = Some Exited \<or> listener_process m = None \<longrightarrow> after_sleep m)"


section \<open>The log parser of \<open>Plots.py\<close>\<close>

text \<open>
  \<open>parse_log_file\<close> reads the lines of a log and keeps those that contain \<open>NEW BEST\<close>
  and on which the regular expression
  \<^verbatim>\<open>(?P<metaheuristic>.*?) NEW BEST: (?P<fitness>[-]?[\d\.]+)(?: - BEST: [\d\.]+)? - Time: (?P<time>[\d\.]+)s\<close>
  is found by \<open>pattern.search\<close>. Characters are bytes here, so \<open>\d\<close> is an ASCII digit.
\<close>

definition is_digit :: "char \<Rightarrow> bool" where
  "is_digit c = (c \<in> set ''0123456789'')"

definition is_num_char :: "char \<Rightarrow> bool" where
  "is_num_char c = (is_digit c \<or> c = CHR ''.'')"

definition digit_val :: "char \<Rightarrow> nat" where
  "digit_val c = length (takeWhile (\<lambda>d. d \<noteq> c) ''0123456789'')"

text \<open>\<open>"NEW BEST" in line\<close>.\<close>

fun is_substring :: "string \<Rightarrow> string \<Rightarrow> bool" where
  "is_substring sub [] = (sub = [])"
| "is_substring sub (c # cs) = (prefix sub (c # cs) \<or> is_substring sub cs)"

text \<open>A literal of the pattern at the head of the text: what follows it, if it is there.\<close>

fun strip_prefix :: "string \<Rightarrow> string \<Rightarrow> string option" where
  "strip_prefix [] s = Some s"
| "strip_prefix (p # ps) [] = None"
| "strip_prefix (p # ps) (c # cs) = (if p = c then strip_prefix ps cs else None)"

text \<open>
  The pattern after the lazy group, matched at the head of a text. Each run
  \<open>[\d\.]+\<close> is followed in the pattern by a character outside its class (a space, or
  \<open>s\<close>), so the greedy run is the longest one and giving characters back never helps;
  the optional group \<open>(?: - BEST: [\d\.]+)?\<close>, once it matches, cannot be skipped, since
  \<open>- Time:\<close> does not match where \<open>- BEST:\<close> does. The result is the texts of the
  groups \<open>fitness\<close> and \<open>time\<close>.
\<close>

definition opt_best :: "string \<Rightarrow> string" where
  "opt_best s =
     (case strip_prefix '' - BEST: '' s of
        None \<Rightarrow> s
      | Some s1 \<Rightarrow> if takeWhile is_num_char s1 = [] then s else dropWhile is_num_char s1)"

definition match_tail :: "string \<Rightarrow> (string \<times> string) option" where
  "match_tail s =
     (case strip_prefix '' NEW BEST: '' s of
        None \<Rightarrow> None
      | Some s1 \<Rightarrow>
         (let sign = (if prefix ''-'' s1 then ''-'' else []);
              s2 = drop (length sign) s1;
              fit = takeWhile is_num_char s2
          in if fit = [] then None
             else
               (case strip_prefix '' - Time: '' (opt_best (dropWhile is_num_char s2)) of
                  None \<Rightarrow> None
                | Some s5 \<Rightarrow>
                   (let tm = takeWhile is_num_char s5
                    in if tm = [] then None
                       else if prefix ''s'' (dropWhile is_num_char s5) then Some (sign @ fit, tm)
                       else None))))"

text \<open>
  The lazy group \<open>.*?\<close> from a start position: it grows one character at a time, never
  over a newline, until the rest of the pattern matches. \<open>pattern_search\<close> tries the
  start positions from left to right, as \<open>re.search\<close> does. The result is the texts of
  the three named groups.
\<close>

fun match_from :: "string \<Rightarrow> string \<Rightarrow> (string \<times> string \<times> string) option" where
  "match_from acc [] =
     (case match_tail [] of Some (f, t) \<Rightarrow> Some (rev acc, f, t) | None \<Rightarrow> None)"
| "match_from acc (c # cs) =
     (case match_tail (c # cs) of
        Some (f, t) \<Rightarrow> Some (rev acc, f, t)
      | None \<Rightarrow> if c = newline then None else match_from (c # acc) cs)"

fun pattern_search :: "string \<Rightarrow> (string \<times> string \<times> string) option" where
  "pattern_search [] = match_from [] []"
| "pattern_search (c # cs) =
     (case match_from [] (c # cs) of Some r \<Rightarrow> Some r | None \<Rightarrow> pattern_search cs)"

text \<open>\<open>str.strip()\<close>: the ASCII characters for which \<open>str.isspace()\<close> holds.\<close>

definition is_space :: "char \<Rightarrow> bool" where
  "is_space c = (c \<in> set [CHR '' '', CHR 0x09, CHR 0x0A, CHR 0x0B, CHR 0x0C, CHR 0x0D,
                            CHR 0x1C, CHR 0x1D, CHR 0x1E, CHR 0x1F])"

definition py_strip :: "string \<Rightarrow> string" where
  "py_strip s = rev (dropWhile is_space (rev (dropWhile is_space s)))"

text \<open>
  \<open>float(text)\<close> on a text of the shape \<open>[-]?[\d\.]+\<close> the pattern hands over: it is
  accepted when it has at most one point and at least one digit, otherwise \<open>ValueError\<close>
  (\<open>None\<close> here). \<open>py_float\<close> is the exact decimal value; the rounding of that value to
  a binary float is the parameter \<open>rnd\<close> of the parser, and the results below hold for
  every rounding.
\<close>

definition digits_val :: "string \<Rightarrow> nat" where
  "digits_val ds = foldl (\<lambda>n c. 10 * n + digit_val c) 0 ds"

definition py_float :: "string \<Rightarrow> rat option" where
  "py_float s =
     (let neg = prefix ''-'' s;
          body = (if neg then tl s else s);
          ip = takeWhile is_digit body;
          r = dropWhile is_digit body;
          fp = (if prefix ''.'' r then tl r else []);
          ok = (body \<noteq> [] \<and> list_all is_num_char body \<and>
                (r = [] \<or> (prefix ''.'' r \<and> list_all is_digit fp)) \<and> ip @ fp \<noteq> []);
          v = of_nat (digits_val (ip @ fp)) / 10 ^ length fp
      in if ok then Some (if neg then - v else v) else None)"

text \<open>The loop of \<open>parse_log_file\<close> over the lines, with its three variables \<open>data\<close>,
  \<open>run_count\<close> and \<open>last_time\<close>. An entry is (name, fitness, time, run number).\<close>

type_synonym 'f entry = "string \<times> 'f \<times> 'f \<times> nat"

fun parse_loop ::
  "(rat \<Rightarrow> 'f::linorder) \<Rightarrow> string list \<Rightarrow> 'f entry list \<Rightarrow> nat \<Rightarrow> 'f \<Rightarrow> py_exc + 'f entry list" where
  "parse_loop rnd [] data run_count last_time = Inr data"
| "parse_loop rnd (line # lines) data run_count last_time =
     (if is_substring ''NEW BEST'' line then
        (case pattern_search line of
           None \<Rightarrow> parse_loop rnd lines data run_count last_time
         | Some (meta, fit, tm) \<Rightarrow>
            (case py_float fit of
               None \<Rightarrow> Inl ValueError
             | Some fq \<Rightarrow>
                (case py_float tm of
                   None \<Rightarrow> Inl ValueError
                 | Some tq \<Rightarrow>
                    (let meta_name = py_strip meta;
                         fitness = rnd fq;
                         time_val = rnd tq;
                         run_count1 = (if data \<noteq> [] \<and> time_val < last_time
                                       then run_count + 1 else run_count)
                     in parse_loop rnd lines (data @ [(meta_name, fitness, time_val, run_count1)])
                          run_count1 time_val))))
      else parse_loop rnd lines data run_count last_time)"


text \<open>\<open>f.readlines()\<close> of a file opened in text mode: \<open>\r\n\<close> and \<open>\r\<close> read as
  \<open>\n\<close>, and every line keeps its newline.\<close>

fun universal_newlines :: "string \<Rightarrow> string" where
  "universal_newlines [] = []"
| "universal_newlines [c] = [if c = CHR 0x0D then newline else c]"
| "universal_newlines (c # d # ds) =
     (if c = CHR 0x0D then
        (if d = newline then newline # universal_newlines ds
         else newline # universal_newlines (d # ds))
      else c # universal_newlines (d # ds))"

fun split_lines :: "string \<Rightarrow> string \<Rightarrow> string list" where
  "split_lines cur [] = (if cur = [] then [] else [rev cur])"
| "split_lines cur (c # cs) =
     (if c = newline then rev (c # cur) # split_lines [] cs else split_lines (c # cur) cs)"

definition readlines :: "string \<Rightarrow> string list" where
  "readlines content = split_lines [] (universal_newlines content)"

text \<open>\<open>HistoryPlotter.parse_log_file\<close>: a missing file is caught, reported with \<open>print\<close>
  and answered with the empty list; any other exception leaves the function.\<close>

definition parse_log_file ::
  "(rat \<Rightarrow> 'f::linorder) \<Rightarrow> world \<Rightarrow> string \<Rightarrow> world \<times> (py_exc + 'f entry list)" where
  "parse_log_file rnd w file_path =
     (case open_read w file_path of
        Inl e \<Rightarrow>
          (if e = FileNotFoundError then
             (case builtin_print w Stdout [PStr (''File not found: '' @ file_path)] [] of
                (w1, Inl e1) \<Rightarrow> (w1, Inl e1)
              | (w1, Inr u) \<Rightarrow> (w1, Inr []))
           else (w, Inl e))
      | Inr content \<Rightarrow> (w, parse_loop rnd (readlines content) [] 1 (rnd 0)))"














section \<open>Sinks: results\<close>

lemmas sink_defs = TerminalLogger_log_def FileLogger_log_def DualLogger_log_def
  builtin_print_def print_keywords_def open_append_def open_write_def world0_def
  FileLogger_init_def banner_def

lemma map_of_absent: "k \<notin> set (map fst kw) \<Longrightarrow> map_of kw k = None"
  by (simp add: map_of_eq_None_iff)

lemma TerminalLogger_log_flush:
  "''flush'' \<in> set (map fst kw) \<Longrightarrow> TerminalLogger_log w args kw = (w, Inl TypeError)"
  by (simp add: TerminalLogger_log_def)

lemma stream_write_file_stdout: "stdout (fst (stream_write w (FileObj p) s)) = stdout w"
  by (simp split: fs_entry.splits)

lemma builtin_print_stdout_fs: "fs (fst (builtin_print w Stdout args kw)) = fs w"
  by (simp add: builtin_print_def split: sum.splits option.splits pyval.splits)

lemma TerminalLogger_log_fs: "fs (fst (TerminalLogger_log w args kw)) = fs w"
  by (simp add: TerminalLogger_log_def builtin_print_stdout_fs)

lemma open_append_stdout: "open_append w p = Inr w1 \<Longrightarrow> stdout w1 = stdout w"
  by (auto simp: open_append_def split: fs_entry.splits)

lemma builtin_print_file_stdout:
  "''file'' \<notin> set (map fst kw) \<Longrightarrow>
     stdout (fst (builtin_print w (FileObj p) args kw)) = stdout w"
  by (simp add: builtin_print_def map_of_absent stream_write_file_stdout
      split: sum.splits fs_entry.splits)

lemma FileLogger_log_stdout: "stdout (fst (FileLogger_log p w args kw)) = stdout w"
  by (auto simp: FileLogger_log_def builtin_print_file_stdout open_append_stdout
      split: sum.splits)

lemma FileLogger_log_appends:
  "fs w p = Regular c \<Longrightarrow> \<exists>t. fs (fst (FileLogger_log p w args kw)) p = Regular (c @ t)"
  by (auto simp: FileLogger_log_def open_append_def builtin_print_def map_of_absent
      split: sum.splits)

text \<open>
  Claim C1, as the code has it. \<open>DualLogger.log\<close> calls the terminal logger and then
  the file logger. When the terminal logger raises, the dual logger raises the same
  exception and the file system is as it was: the file logger is not called. When the
  terminal logger returns, the dual logger's outcome is the file logger's on the world
  the terminal logger left, and what was printed on the terminal stays, whatever the
  file logger does.
\<close>

theorem dual_log_order:
  "(TerminalLogger_log w args kw = (w1, Inl e) \<longrightarrow>
      DualLogger_log path w args kw = (w1, Inl e) \<and> fs w1 = fs w) \<and>
   (TerminalLogger_log w args kw = (w1, Inr u) \<longrightarrow>
      DualLogger_log path w args kw = FileLogger_log path w1 args kw \<and>
      stdout (fst (DualLogger_log path w args kw)) = stdout w1)"
  using TerminalLogger_log_fs[of w args kw]
  by (auto simp: DualLogger_log_def FileLogger_log_stdout)

theorem dual_log_order_witness:
  "TerminalLogger_log world0 [PStr ''A''] [(''flush'', PBool False)] = (world0, Inl TypeError) \<and>
   DualLogger_log ''run.log'' world0 [PStr ''A''] [(''flush'', PBool False)] =
     (world0, Inl TypeError) \<and>
   TerminalLogger_log world0 [PStr ''A''] [] = (world0\<lparr>stdout := ''A'' @ [newline]\<rparr>, Inr ()) \<and>
   DualLogger_log ''/tmp'' world0 [PStr ''A''] [] =
     (world0\<lparr>stdout := ''A'' @ [newline]\<rparr>, Inl IsADirectoryError)"
  using dual_log_order[where w = world0 and args = "[PStr ''A'']"
      and kw = "[(''flush'', PBool False)]" and ?w1.0 = world0 and e = TypeError
      and path = "''run.log''"]
    dual_log_order[where w = world0 and args = "[PStr ''A'']" and kw = "[]"
      and ?w1.0 = "world0\<lparr>stdout := ''A'' @ [newline]\<rparr>" and u = "()" and path = "''/tmp''"]
  by (simp add: sink_defs)

text \<open>
  Claim C1 as stated fails: on the payload \<open>("A", flush=False)\<close> the terminal logger
  raises \<open>TypeError\<close>; the file logger alone would append the line \<open>A\<close> to
  \<open>run.log\<close>; the dual logger raises and \<open>run.log\<close> is still missing, so the file
  write was never attempted.
\<close>

theorem dual_isolation_counterexample:
  "snd (TerminalLogger_log world0 [PStr ''A''] [(''flush'', PBool False)]) = Inl TypeError \<and>
   FileLogger_log ''run.log'' world0 [PStr ''A''] [(''flush'', PBool False)] =
     (world0\<lparr>fs := (fs world0)(''run.log'' := Regular (''A'' @ [newline]))\<rparr>, Inr ()) \<and>
   DualLogger_log ''run.log'' world0 [PStr ''A''] [(''flush'', PBool False)] =
     (world0, Inl TypeError) \<and>
   fs world0 ''run.log'' = Missing"
  by (simp add: sink_defs)

text \<open>
  Claim C10. A payload whose keyword dictionary has the key \<open>flush\<close> makes
  \<open>TerminalLogger.log\<close> raise \<open>TypeError\<close> with nothing written, whatever else the
  payload holds, and so does \<open>DualLogger.log\<close>.
\<close>

theorem flush_keyword_rejected:
  "''flush'' \<in> set (map fst kw) \<Longrightarrow>
     TerminalLogger_log w args kw = (w, Inl TypeError) \<and>
     DualLogger_log path w args kw = (w, Inl TypeError)"
  by (simp add: DualLogger_log_def TerminalLogger_log_flush)

theorem flush_keyword_rejected_witness:
  "''flush'' \<in> set (map fst [(''sep'', PStr '', ''), (''flush'', PBool False)]) \<and>
   TerminalLogger_log world0 [PStr ''A'', PInt 1] [(''sep'', PStr '', ''), (''flush'', PBool False)] =
     (world0, Inl TypeError) \<and>
   DualLogger_log ''run.log'' world0 [PStr ''A'', PInt 1]
       [(''sep'', PStr '', ''), (''flush'', PBool False)] =
     (world0, Inl TypeError)"
  using flush_keyword_rejected[of "[(''sep'', PStr '', ''), (''flush'', PBool False)]" world0
      "[PStr ''A'', PInt 1]" "''run.log''"]
  by simp

text \<open>
  Claim C4, as the code has it. On a path that is not a directory, constructing the
  file logger with \<open>reset\<close> set replaces whatever the file held by the single line
  \<open>--- Log Iniciado em <timestamp> ---\<close>; constructing it without \<open>reset\<close> changes
  nothing. Every later \<open>log\<close> leaves the prior content as a prefix of the file, and a
  \<open>log\<close> with no keyword appends the values joined by spaces and a newline.
\<close>

theorem file_sink_reset_and_append:
  "fs w p \<noteq> Directory \<Longrightarrow>
     FileLogger_init now w p True =
       (w\<lparr>fs := (fs w)(p := Regular (''--- Log Iniciado em '' @ now @ '' ---'' @ [CHR 0x0A]))\<rparr>,
        Inr (FileLogger p)) \<and>
     FileLogger_init now w p False = (w, Inr (FileLogger p)) \<and>
     (\<forall>c args kw. fs w p = Regular c \<longrightarrow>
        (\<exists>t. fs (fst (FileLogger_log p w args kw)) p = Regular (c @ t)) \<and>
        FileLogger_log p w args [] =
          (w\<lparr>fs := (fs w)(p := Regular (c @ py_join '' '' (map py_str args) @ [CHR 0x0A]))\<rparr>,
           Inr ()))"
  apply (intro conjI allI impI)
  subgoal
    by (auto simp: FileLogger_init_def open_write_def banner_def newline_def
        split: fs_entry.splits)
  subgoal by (simp add: FileLogger_init_def)
  subgoal by (rule FileLogger_log_appends)
  subgoal by (simp add: FileLogger_log_def open_append_def builtin_print_def newline_def)
  done

theorem file_sink_reset_and_append_witness:
  "fs world1 ''run.log'' = Regular ''old'' \<and>
   FileLogger_init ''2024-05-01 10:00:00'' world1 ''run.log'' True =
     (world1\<lparr>fs := (fs world1)(''run.log'' :=
        Regular (''--- Log Iniciado em 2024-05-01 10:00:00 ---'' @ [CHR 0x0A]))\<rparr>,
      Inr (FileLogger ''run.log'')) \<and>
   FileLogger_init ''2024-05-01 10:00:00'' world1 ''run.log'' False =
     (world1, Inr (FileLogger ''run.log'')) \<and>
   FileLogger_log ''run.log'' world1 [PStr ''A'', PInt 1] [] =
     (world1\<lparr>fs := (fs world1)(''run.log'' := Regular (''oldA 1'' @ [CHR 0x0A]))\<rparr>, Inr ())"
  using file_sink_reset_and_append[of world1 "''run.log''" "''2024-05-01 10:00:00''"]
  by (simp add: world1_def world0_def str_int_def digit_char_def)

text \<open>
  Claim C4 as stated fails on the text of the banner: the line the constructor writes
  is \<open>--- Log Iniciado em <timestamp> ---\<close>, not \<open>--- Log Started at <timestamp> ---\<close>.
\<close>

theorem banner_text_counterexample:
  "fs (fst (FileLogger_init ''2024-05-01 10:00:00'' world1 ''run.log'' True)) ''run.log'' =
     Regular (''--- Log Iniciado em 2024-05-01 10:00:00 ---'' @ [CHR 0x0A]) \<and>
   fs (fst (FileLogger_init ''2024-05-01 10:00:00'' world1 ''run.log'' True)) ''run.log'' \<noteq>
     Regular (''--- Log Started at 2024-05-01 10:00:00 ---'' @ [CHR 0x0A])"
  by (simp add: sink_defs world1_def newline_def)

section \<open>The manager and its listener: results\<close>

subsection \<open>What is put on the queue is what is taken, in order\<close>

lemma taken_append: "taken (xs @ ys) = taken xs @ taken ys"
  by (simp add: taken_def)

lemma taken_Slept: "taken [Slept] = []"
  by (simp add: taken_def)

lemma puts_Cons: "puts (e # es) = put_of e @ puts es"
  by (simp add: puts_def)

lemma puts_append: "puts (xs @ ys) = puts xs @ puts ys"
  by (simp add: puts_def)

lemma logged_append: "logged (xs @ ys) = logged xs @ logged ys"
  by (simp add: logged_def puts_append)

lemma try_body_fields:
  "queue (try_body m x) = queue m"
  "stop_event (try_body m x) = stop_event m"
  "listener_process (try_body m x) = listener_process m"
  "stopping (try_body m x) = stopping m"
  "strategy (try_body m x) = strategy m"
  by (cases x; cases "snd x"; simp split: prod.splits sum.splits)+

lemma try_body_trace: "taken (trace (try_body m x)) = taken (trace m) @ [x]"
  by (cases x; cases "snd x"; simp add: taken_def split: prod.splits sum.splits)

lemma listener_worker_history:
  "listener_worker m = Some m' \<Longrightarrow> taken (trace m') @ queue m' = taken (trace m) @ queue m"
  by (auto simp: listener_worker_def try_body_fields try_body_trace taken_append taken_Slept
      split: option.splits lpc.splits list.splits)

lemma step_history:
  "step e m = Some m' \<Longrightarrow> taken (trace m') @ queue m' = taken (trace m) @ queue m @ put_of e"
  by (cases e)
    (auto simp: WorkerLogger_log_def ParallelLogManager_start_def ParallelLogManager_stop_def
      join_returns_def listener_worker_history split: if_splits)

lemma run_history:
  "run es m = Some m' \<Longrightarrow> taken (trace m') @ queue m' = taken (trace m) @ queue m @ puts es"
proof (induction es arbitrary: m)
  case Nil
  then show ?case by (simp add: puts_def)
next
  case (Cons e es)
  then obtain m1 where s: "step e m = Some m1" and r: "run es m1 = Some m'"
    by (auto split: option.splits)
  from Cons.IH[OF r] step_history[OF s] show ?case
    by (simp add: puts_Cons)
qed


lemma init_fields:
  "queue (ParallelLogManager_init strat w) = []"
  "trace (ParallelLogManager_init strat w) = []"
  "stop_event (ParallelLogManager_init strat w) = False"
  "listener_process (ParallelLogManager_init strat w) = None"
  "stopping (ParallelLogManager_init strat w) = NotCalled"
  by (simp_all add: ParallelLogManager_init_def)

lemma run_init_history:
  "run es (ParallelLogManager_init strat w) = Some m \<Longrightarrow> puts es = taken (trace m) @ queue m"
  using run_history[of es "ParallelLogManager_init strat w" m]
  by (simp add: init_fields taken_def)

subsection \<open>Invariants\<close>

lemma try_body_trace_snoc: "\<exists>a. trace (try_body m x) = trace m @ [a] \<and> a \<noteq> Slept"
  by (cases x; cases "snd x"; simp split: prod.splits sum.splits)

lemma listener_worker_inv:
  "listener_inv m \<Longrightarrow> listener_worker m = Some m' \<Longrightarrow> listener_inv m'"
  by (auto simp: listener_inv_def after_sleep_def listener_worker_def try_body_fields
      split: option.splits lpc.splits list.splits if_splits)

lemma log_inv: "listener_inv m \<Longrightarrow> listener_inv (WorkerLogger_log h m args kw)"
  by (auto simp: listener_inv_def after_sleep_def WorkerLogger_log_def)

lemma junk_inv: "listener_inv m \<Longrightarrow> listener_inv (m\<lparr>queue := queue m @ [x]\<rparr>)"
  by (auto simp: listener_inv_def after_sleep_def)

lemma start_inv:
  "listener_inv m \<Longrightarrow> listener_process m = None \<Longrightarrow>
     listener_inv (m\<lparr>listener_process := Some OuterTest\<rparr>)"
  by (simp add: listener_inv_def after_sleep_def)

lemma stop_inv:
  "listener_inv m \<Longrightarrow> stopping m = NotCalled \<Longrightarrow>
     listener_inv (m\<lparr>stop_event := True,
       stopping := (if listener_process m = None then Returned else Joining)\<rparr>)"
  by (simp add: listener_inv_def after_sleep_def)

lemma join_inv: "listener_inv m \<Longrightarrow> join_returns m = Some m' \<Longrightarrow> listener_inv m'"
  by (auto simp: listener_inv_def after_sleep_def join_returns_def split: if_splits)

lemma step_inv: "listener_inv m \<Longrightarrow> step e m = Some m' \<Longrightarrow> listener_inv m'"
proof (cases e)
  case (Log h args kw)
  assume "listener_inv m" "step e m = Some m'"
  with Log show ?thesis using log_inv[of m h args kw] by auto
next
  case (PutJunk h)
  assume "listener_inv m" "step e m = Some m'"
  with PutJunk show ?thesis using junk_inv[of m "(h, Junk)"] by auto
next
  case Start
  assume "listener_inv m" "step e m = Some m'"
  with Start show ?thesis using start_inv[of m]
    by (auto simp: ParallelLogManager_start_def split: if_splits)
next
  case Stop
  assume "listener_inv m" "step e m = Some m'"
  with Stop show ?thesis using stop_inv[of m]
    by (auto simp: ParallelLogManager_stop_def split: if_splits)
next
  case Join
  assume "listener_inv m" "step e m = Some m'"
  with Join show ?thesis by (simp add: join_inv)
next
  case Listener
  assume "listener_inv m" "step e m = Some m'"
  with Listener show ?thesis by (simp add: listener_worker_inv)
qed

lemma run_inv: "listener_inv m \<Longrightarrow> run es m = Some m' \<Longrightarrow> listener_inv m'"
  by (induction es arbitrary: m) (auto split: option.splits dest: step_inv)

lemma init_inv: "listener_inv (ParallelLogManager_init strat w)"
  by (simp add: listener_inv_def after_sleep_def ParallelLogManager_init_def)






lemma concat_map_prefix: "prefix xs ys \<Longrightarrow> prefix (concat (map f xs)) (concat (map f ys))"
  by (auto simp: prefix_def)

lemma filter_map_prefix: "prefix xs ys \<Longrightarrow> prefix (of_handle h xs) (of_handle h ys)"
  by (auto simp: prefix_def of_handle_def)



lemmas manager_defs = manager0_def ParallelLogManager_init_def ParallelLogManager_start_def
  ParallelLogManager_stop_def join_returns_def WorkerLogger_log_def listener_worker_def
  report_def

subsection \<open>Drain before exit\<close>



subsection \<open>First in, first out for each handle\<close>

text \<open>
  Claim C9. In every execution, the messages of a handle that the sink has been called
  with are an initial segment of the messages that handle logged, in the order it logged
  them. Across handles nothing is fixed: two executions in which every handle logs the
  same messages give the sink the messages of handles 1 and 2 in opposite orders.
\<close>

theorem fifo_per_handle:
  "(run es (ParallelLogManager_init strat w) = Some m \<longrightarrow>
      prefix (of_handle h (dispatched m)) (of_handle h (logged es))) \<and>
   (\<exists>es1 es2 m1 m2.
      run es1 manager0 = Some m1 \<and> run es2 manager0 = Some m2 \<and>
      (\<forall>k. of_handle k (logged es1) = of_handle k (logged es2)) \<and>
      dispatched m1 = [(1, [PStr ''A''], []), (2, [PStr ''B''], [])] \<and>
      dispatched m2 = [(2, [PStr ''B''], []), (1, [PStr ''A''], [])])"
proof (intro conjI impI)
  assume r: "run es (ParallelLogManager_init strat w) = Some m"
  have "prefix (taken (trace m)) (puts es)"
    using run_init_history[OF r] by (simp add: prefix_def)
  then have "prefix (dispatched m) (logged es)"
    unfolding logged_def dispatched_def by (rule concat_map_prefix)
  then show "prefix (of_handle h (dispatched m)) (of_handle h (logged es))"
    by (rule filter_map_prefix)
next
  let ?a = "Log 1 [PStr ''A''] []" and ?b = "Log 2 [PStr ''B''] []"
  let ?l = "[Listener, Listener, Listener, Listener, Listener]"
  have 1: "\<exists>m1. run (Start # ?a # ?b # ?l) manager0 = Some m1 \<and>
    dispatched m1 = [(1, [PStr ''A''], []), (2, [PStr ''B''], [])]"
    by (simp add: manager0_def ParallelLogManager_init_def ParallelLogManager_start_def
        WorkerLogger_log_def listener_worker_def dispatched_def taken_def sink_defs)
  have 2: "\<exists>m2. run (Start # ?b # ?a # ?l) manager0 = Some m2 \<and>
    dispatched m2 = [(2, [PStr ''B''], []), (1, [PStr ''A''], [])]"
    by (simp add: manager0_def ParallelLogManager_init_def ParallelLogManager_start_def
        WorkerLogger_log_def listener_worker_def dispatched_def taken_def sink_defs)
  have 3: "of_handle k (logged (Start # ?a # ?b # ?l)) = of_handle k (logged (Start # ?b # ?a # ?l))" for k
    by (simp add: of_handle_def logged_def puts_def)
  from 1 2 3 show "\<exists>es1 es2 m1 m2.
      run es1 manager0 = Some m1 \<and> run es2 manager0 = Some m2 \<and>
      (\<forall>k. of_handle k (logged es1) = of_handle k (logged es2)) \<and>
      dispatched m1 = [(1, [PStr ''A''], []), (2, [PStr ''B''], [])] \<and>
      dispatched m2 = [(2, [PStr ''B''], []), (1, [PStr ''A''], [])]"
    by blast
qed

theorem fifo_per_handle_witness:
  "\<exists>m. run (pre_stop @ Stop # post_stop) manager0 = Some m \<and>
     prefix (of_handle 1 (dispatched m)) (of_handle 1 (logged (pre_stop @ Stop # post_stop))) \<and>
     of_handle 1 (dispatched m) = [([PStr ''A'', PInt 1], []), ([PStr ''C''], [])] \<and>
     of_handle 2 (dispatched m) = [([PStr ''B''], [(''file'', PNone)])] \<and>
     of_handle 2 (logged (pre_stop @ Stop # post_stop)) =
       [([PStr ''B''], [(''file'', PNone)]), ([PStr ''late''], [])]"
proof -
  define m where "m = the (run (pre_stop @ Stop # post_stop) manager0)"
  have r: "run (pre_stop @ Stop # post_stop) manager0 = Some m"
    unfolding m_def
    by (simp add: pre_stop_def post_stop_def manager_defs sink_defs str_int_def digit_char_def)
  have d: "of_handle 1 (dispatched m) = [([PStr ''A'', PInt 1], []), ([PStr ''C''], [])]"
    "of_handle 2 (dispatched m) = [([PStr ''B''], [(''file'', PNone)])]"
    unfolding m_def
    by (simp_all add: pre_stop_def post_stop_def manager_defs sink_defs str_int_def digit_char_def
        dispatched_def taken_def of_handle_def)
  have l: "of_handle 2 (logged (pre_stop @ Stop # post_stop)) =
       [([PStr ''B''], [(''file'', PNone)]), ([PStr ''late''], [])]"
    by (simp add: logged_def puts_def pre_stop_def post_stop_def of_handle_def)
  from fifo_per_handle[of "pre_stop @ Stop # post_stop" "FileLogger ''run.log''" world0 m 1,
      folded manager0_def] r d l
  show ?thesis by blast
qed

subsection \<open>Failure isolation in the listener\<close>








lemma try_body_env:
  "env (try_body m (h, Junk)) = report (env m) TypeError"
  "strategy_log (strategy m) (env m) args kw = (w1, Inl e) \<Longrightarrow>
     env (try_body m (h, Payload args kw)) = report w1 e"
  "strategy_log (strategy m) (env m) args kw = (w1, Inr u) \<Longrightarrow>
     env (try_body m (h, Payload args kw)) = w1"
  by simp_all





subsection \<open>\<open>stop()\<close> before \<open>start()\<close>\<close>

lemma run_not_started:
  "run es m = Some m' \<Longrightarrow> Start \<notin> set es \<Longrightarrow> listener_process m = None \<Longrightarrow>
     listener_process m' = None \<and> trace m' = trace m"
proof (induction es arbitrary: m)
  case Nil
  then show ?case by simp
next
  case (Cons e es)
  then obtain m1 where s: "step e m = Some m1" and r: "run es m1 = Some m'"
    by (auto split: option.splits)
  from s Cons.prems have "listener_process m1 = None \<and> trace m1 = trace m"
    by (cases e)
      (auto simp: WorkerLogger_log_def ParallelLogManager_stop_def join_returns_def
        listener_worker_def split: if_splits)
  with Cons.IH[OF r] Cons.prems show ?case by simp
qed

lemma run_not_stopped:
  "run es m = Some m' \<Longrightarrow> Stop \<notin> set es \<Longrightarrow> stopping m = NotCalled \<Longrightarrow>
     stopping m' = NotCalled"
proof (induction es arbitrary: m)
  case Nil
  then show ?case by simp
next
  case (Cons e es)
  then obtain m1 where s: "step e m = Some m1" and r: "run es m1 = Some m'"
    by (auto split: option.splits)
  from s Cons.prems have "stopping m1 = NotCalled"
    by (cases e)
      (auto simp: WorkerLogger_log_def ParallelLogManager_start_def join_returns_def
        listener_worker_def try_body_fields split: if_splits option.splits lpc.splits list.splits)
  with Cons.IH[OF r] Cons.prems show ?case by simp
qed

text \<open>
  Claim C6, as the code has it. In an execution with no \<open>start()\<close> and no earlier
  \<open>stop()\<close>, calling \<open>stop()\<close> raises nothing: it sets the event and returns at once.
  Nothing has been handed to the sink, and everything logged is still on the queue.
\<close>

theorem stop_before_start_returns:
  assumes r: "run es (ParallelLogManager_init strat w) = Some m"
    and ns: "Start \<notin> set es" and nt: "Stop \<notin> set es"
  shows "ParallelLogManager_stop m = Inr (m\<lparr>stop_event := True, stopping := Returned\<rparr>) \<and>
         step Stop m = Some (m\<lparr>stop_event := True, stopping := Returned\<rparr>) \<and>
         queue m = puts es \<and> trace m = []"
proof -
  from run_not_started[OF r ns] have l: "listener_process m = None" and t: "trace m = []"
    by (simp_all add: init_fields)
  from run_not_stopped[OF r nt] have s: "stopping m = NotCalled"
    by (simp add: init_fields)
  from run_init_history[OF r] t have q: "queue m = puts es"
    by (simp add: taken_def)
  from l s q t show ?thesis
    by (simp add: ParallelLogManager_stop_def)
qed

theorem stop_before_start_returns_witness:
  "\<exists>m. run [Log 1 [PStr ''A''] []] manager0 = Some m \<and>
     ParallelLogManager_stop m = Inr (m\<lparr>stop_event := True, stopping := Returned\<rparr>) \<and>
     queue m = [(1, Payload [PStr ''A''] [])] \<and> trace m = []"
proof -
  have r: "run [Log 1 [PStr ''A''] []] manager0 = Some (WorkerLogger_log 1 manager0 [PStr ''A''] [])"
    by simp
  from stop_before_start_returns[of "[Log 1 [PStr ''A''] []]" "FileLogger ''run.log''" world0,
      folded manager0_def, OF r]
  show ?thesis using r by (simp add: puts_def)
qed

text \<open>
  Claim C6 as stated fails: on a manager that was never started, \<open>stop()\<close> returns
  normally (no exception), with the message logged before it still queued.
\<close>

theorem stop_before_start_counterexample:
  "\<not> isl (ParallelLogManager_stop manager0) \<and>
   map_option view (run [Log 1 [PStr ''A''] [], Stop] manager0) =
     Some (True, [(1, Payload [PStr ''A''] [])], None, Returned, [])"
  by (simp add: manager_defs view_def)

subsection \<open>When the listener sleeps\<close>

text \<open>
  Claim C7, as the code has it. Whenever the inner loop finds the queue empty, the
  listener's next two steps are to go to the sleep and to sleep, whether or not the
  event is set; and a listener that has exited did nothing at all or slept last: after
  the last item is drained it sleeps once more before the outer test lets it go.
\<close>

theorem sleep_after_every_drain:
  assumes r: "run es (ParallelLogManager_init strat w) = Some m"
  shows "(listener_process m = Some Exited \<longrightarrow> trace m = [] \<or> last (trace m) = Slept) \<and>
         (listener_process m = Some InnerTest \<and> queue m = [] \<longrightarrow>
            (\<exists>m1 m2. step Listener m = Some m1 \<and> listener_process m1 = Some Sleeping \<and>
               stop_event m1 = stop_event m \<and>
               step Listener m1 = Some m2 \<and> trace m2 = trace m @ [Slept] \<and>
               listener_process m2 = Some OuterTest))"
proof (intro conjI impI)
  assume "listener_process m = Some Exited"
  with run_inv[OF init_inv r] show "trace m = [] \<or> last (trace m) = Slept"
    by (simp add: listener_inv_def after_sleep_def)
next
  assume a: "listener_process m = Some InnerTest \<and> queue m = []"
  let ?m1 = "m\<lparr>listener_process := Some Sleeping\<rparr>"
  let ?m2 = "?m1\<lparr>listener_process := Some OuterTest, trace := trace ?m1 @ [Slept]\<rparr>"
  from a have 1: "step Listener m = Some ?m1" by (simp add: listener_worker_def)
  have 2: "step Listener ?m1 = Some ?m2" by (simp add: listener_worker_def)
  from 1 2 show "\<exists>m1 m2. step Listener m = Some m1 \<and> listener_process m1 = Some Sleeping \<and>
               stop_event m1 = stop_event m \<and>
               step Listener m1 = Some m2 \<and> trace m2 = trace m @ [Slept] \<and>
               listener_process m2 = Some OuterTest"
    by (intro exI[of _ ?m1] exI[of _ ?m2]) simp
qed

theorem sleep_after_every_drain_witness:
  "\<exists>m m1 m2 m5. run stop_while_queued manager0 = Some m \<and>
     listener_process m = Some InnerTest \<and> queue m = [] \<and> stop_event m \<and>
     step Listener m = Some m1 \<and> listener_process m1 = Some Sleeping \<and>
     step Listener m1 = Some m2 \<and> trace m2 = [Dispatch 1 [PStr ''A''] [], Slept] \<and>
     run (stop_while_queued @ [Listener, Listener, Listener, Listener]) manager0 = Some m5 \<and>
     listener_process m5 = Some Exited \<and> last (trace m5) = Slept"
proof -
  define m where "m = the (run stop_while_queued manager0)"
  define m5 where
    "m5 = the (run (stop_while_queued @ [Listener, Listener, Listener, Listener]) manager0)"
  have r: "run stop_while_queued manager0 = Some m"
    unfolding m_def by (simp add: stop_while_queued_def manager_defs sink_defs)
  have f: "listener_process m = Some InnerTest" "queue m = []" "stop_event m"
    "trace m = [Dispatch 1 [PStr ''A''] []]"
    unfolding m_def by (simp_all add: stop_while_queued_def manager_defs sink_defs)
  have r5: "run (stop_while_queued @ [Listener, Listener, Listener, Listener]) manager0 = Some m5"
    unfolding m5_def by (simp add: stop_while_queued_def manager_defs sink_defs)
  have f5: "listener_process m5 = Some Exited" "trace m5 \<noteq> []"
    unfolding m5_def by (simp_all add: stop_while_queued_def manager_defs sink_defs)
  from sleep_after_every_drain[of stop_while_queued "FileLogger ''run.log''" world0 m,
      folded manager0_def, OF r] f
  obtain m1 m2 where s: "step Listener m = Some m1" "listener_process m1 = Some Sleeping"
    "step Listener m1 = Some m2" "trace m2 = [Dispatch 1 [PStr ''A''] [], Slept]"
    by auto
  from sleep_after_every_drain[of "stop_while_queued @ [Listener, Listener, Listener, Listener]"
      "FileLogger ''run.log''" world0 m5, folded manager0_def, OF r5] f5
  have l5: "last (trace m5) = Slept" by simp
  from r f s r5 f5 l5 show ?thesis by blast
qed

text \<open>
  Claim C7 as stated fails: with \<open>stop()\<close> called while a message is queued, the
  listener drains the queue and then, the event set and the queue empty, sleeps before
  it exits.
\<close>

theorem sleep_with_signal_set_counterexample:
  "map_option view (run (stop_while_queued @ [Listener]) manager0) =
     Some (True, [], Some Sleeping, Joining, [Dispatch 1 [PStr ''A''] []]) \<and>
   map_option view (run (stop_while_queued @ [Listener, Listener]) manager0) =
     Some (True, [], Some OuterTest, Joining, [Dispatch 1 [PStr ''A''] [], Slept]) \<and>
   map_option view (run (stop_while_queued @ [Listener, Listener, Listener, Listener]) manager0) =
     Some (True, [], Some Exited, Joining, [Dispatch 1 [PStr ''A''] [], Slept])"
  by (simp add: stop_while_queued_def manager_defs sink_defs view_def)

section \<open>The log parser: results\<close>





















text \<open>
  Claim C5, as the code has it. On a path that names no file, \<open>parse_log_file\<close> catches
  the \<open>FileNotFoundError\<close>, prints \<open>File not found: <path>\<close> on the terminal and
  returns the empty list; only a failure of that \<open>print\<close> reaches the caller.
\<close>

theorem parse_missing_file:
  "fs w p = Missing \<Longrightarrow>
     parse_log_file rnd w p =
       (if stdout_closed w then (w, Inl ValueError)
        else (w\<lparr>stdout := stdout w @ ''File not found: '' @ p @ [CHR 0x0A]\<rparr>, Inr []))"
  by (simp add: parse_log_file_def open_read_def builtin_print_def newline_def)

theorem parse_missing_file_witness:
  "fs world0 ''none.log'' = Missing \<and>
   parse_log_file (id :: rat \<Rightarrow> rat) world0 ''none.log'' =
     (world0\<lparr>stdout := ''File not found: none.log'' @ [CHR 0x0A]\<rparr>, Inr [])"
  using parse_missing_file[of world0 "''none.log''" "id :: rat \<Rightarrow> rat"]
  by (simp add: world0_def)

text \<open>
  Claim C5 as stated fails: on a missing path the caller gets the empty list, not the
  error.
\<close>

theorem parse_missing_file_counterexample:
  "fs world0 ''none.log'' = Missing \<and>
   snd (parse_log_file (id :: rat \<Rightarrow> rat) world0 ''none.log'') = Inr [] \<and>
   snd (parse_log_file (id :: rat \<Rightarrow> rat) world0 ''none.log'') \<noteq> Inl FileNotFoundError"
  by (simp add: parse_log_file_def open_read_def builtin_print_def world0_def)

end
